theory Spec2Isabelle
  imports Complex_Main
begin

section \<open>TubeMind AI: the channel analysis pipeline of app.py\<close>

text \<open>
  The program is one Python script. It reads two credentials, asks the YouTube Data API for
  a channel, the ten latest uploads and their statistics, reshapes the answers into a table
  and sends the first rows of the table to a text model. The development below embeds the
  four functions of the script and the script itself, and proves what the specification
  says about them.
\<close>

subsection \<open>Python values\<close>

text \<open>
  The answers of the YouTube client are parsed JSON: \<open>None\<close>, booleans, integers of any
  size, floats, strings, lists and dictionaries with string keys. A \<open>str\<close> is a HOL
  string, one \<open>char\<close> for one character. A \<open>dict\<close> is an association list read with
  \<open>map_of\<close>, so the first binding of a key is the one the dictionary holds. A float is
  the rational number it denotes; the non-finite floats are left out.
\<close>

datatype json =
    JNull
  | JBool bool
  | JInt int
  | JFloat rat
  | JStr string
  | JList "json list"
  | JDict "(string \<times> json) list"

text \<open>The exceptions the script can meet. \<open>HttpError\<close> stands for every failure of an
  external service or library.\<close>

datatype error = KeyError | IndexError | TypeError | ValueError | AttributeError | HttpError

text \<open>\<open>if v:\<close> -- the truth value Python gives an object.\<close>

fun truthy :: "json \<Rightarrow> bool" where
  "truthy JNull = False"
| "truthy (JBool b) = b"
| "truthy (JInt n) = (n \<noteq> 0)"
| "truthy (JFloat r) = (r \<noteq> 0)"
| "truthy (JStr s) = (s \<noteq> [])"
| "truthy (JList xs) = (xs \<noteq> [])"
| "truthy (JDict d) = (d \<noteq> [])"

text \<open>\<open>v[k]\<close> with a string \<open>k\<close>: a dictionary looks the key up and raises \<open>KeyError\<close>
  when it is missing; a list or a string accepts integer subscripts only; nothing else can be
  subscripted.\<close>

fun getitem :: "json \<Rightarrow> string \<Rightarrow> error + json" where
  "getitem (JDict d) k = (case map_of d k of None \<Rightarrow> Inl KeyError | Some v \<Rightarrow> Inr v)"
| "getitem _ k = Inl TypeError"

text \<open>\<open>v[i]\<close> with an integer \<open>i\<close>; a negative index counts from the end. A dictionary
  parsed from JSON has no integer key.\<close>

definition index_of :: "nat \<Rightarrow> int \<Rightarrow> nat option" where
  "index_of n i =
     (let j = (if i < 0 then int n + i else i)
      in if 0 \<le> j \<and> j < int n then Some (nat j) else None)"

fun getitem_int :: "json \<Rightarrow> int \<Rightarrow> error + json" where
  "getitem_int (JList xs) i =
     (case index_of (length xs) i of None \<Rightarrow> Inl IndexError | Some j \<Rightarrow> Inr (xs ! j))"
| "getitem_int (JStr s) i =
     (case index_of (length s) i of None \<Rightarrow> Inl IndexError | Some j \<Rightarrow> Inr (JStr [s ! j]))"
| "getitem_int (JDict d) i = Inl KeyError"
| "getitem_int _ i = Inl TypeError"

text \<open>\<open>v.get(k, default)\<close>: only a dictionary has the method.\<close>

fun dict_get :: "json \<Rightarrow> string \<Rightarrow> json \<Rightarrow> error + json" where
  "dict_get (JDict d) k dflt = Inr (case map_of d k of None \<Rightarrow> dflt | Some v \<Rightarrow> v)"
| "dict_get _ k dflt = Inl AttributeError"

text \<open>\<open>int(v)\<close>. A float is truncated towards zero. The reading of a \<open>str\<close> is the
  interpreter's own: it is the parameter \<open>int_str\<close>, \<open>None\<close> where \<open>int\<close> raises
  \<open>ValueError\<close>.\<close>

fun py_int :: "(string \<Rightarrow> int option) \<Rightarrow> json \<Rightarrow> error + int" where
  "py_int int_str (JInt n) = Inr n"
| "py_int int_str (JBool b) = Inr (if b then 1 else 0)"
| "py_int int_str (JFloat r) = Inr (if 0 \<le> r then \<lfloor>r\<rfloor> else \<lceil>r\<rceil>)"
| "py_int int_str (JStr s) = (case int_str s of None \<Rightarrow> Inl ValueError | Some n \<Rightarrow> Inr n)"
| "py_int int_str _ = Inl TypeError"

text \<open>\<open>for x in v\<close>: the elements of a list, the characters of a string, the keys of a
  dictionary; nothing else is iterable.\<close>

fun py_iter :: "json \<Rightarrow> error + json list" where
  "py_iter (JList xs) = Inr xs"
| "py_iter (JStr s) = Inr (map (\<lambda>c. JStr [c]) s)"
| "py_iter (JDict d) = Inr (map JStr (remdups (map fst d)))"
| "py_iter _ = Inl TypeError"

text \<open>\<open>sep.join(xs)\<close>: every element has to be a \<open>str\<close>.\<close>

fun strs :: "json list \<Rightarrow> error + string list" where
  "strs [] = Inr []"
| "strs (JStr s # xs) = (case strs xs of Inl e \<Rightarrow> Inl e | Inr ss \<Rightarrow> Inr (s # ss))"
| "strs (_ # xs) = Inl TypeError"

fun join :: "string \<Rightarrow> string list \<Rightarrow> string" where
  "join sep [] = []"
| "join sep [s] = s"
| "join sep (s # t # ss) = s @ sep @ join sep (t # ss)"

definition py_join :: "string \<Rightarrow> json list \<Rightarrow> error + string" where
  "py_join sep xs = (case strs xs of Inl e \<Rightarrow> Inl e | Inr ss \<Rightarrow> Inr (join sep ss))"

text \<open>A chain of subscripts \<open>v[k1][k2]...\<close>, left to right.\<close>

fun subscripts :: "json \<Rightarrow> string list \<Rightarrow> error + json" where
  "subscripts v [] = Inr v"
| "subscripts v (k # ks) = (case getitem v k of Inl e \<Rightarrow> Inl e | Inr w \<Rightarrow> subscripts w ks)"

text \<open>Sequencing of computations that may raise: the first exception ends the sequence.\<close>

fun bindE :: "error + 'a \<Rightarrow> ('a \<Rightarrow> error + 'b) \<Rightarrow> error + 'b" where
  "bindE (Inl e) f = Inl e"
| "bindE (Inr x) f = f x"

subsection \<open>The outside world\<close>

text \<open>
  A request is what the script hands to an external service, with the arguments as the
  script passes them: the three list calls of the YouTube client and the one call of the
  text model. The YouTube service object is the function that answers a request when it is
  executed, with the parsed body or with an exception; the text model answers a model name
  and a prompt with a text.
\<close>

datatype request =
    ChannelsList string string
  | PlaylistItemsList string json nat
  | VideosList string string
  | GenerateContent string string

type_synonym youtube = "request \<Rightarrow> error + json"

type_synonym genai = "string \<Rightarrow> string \<Rightarrow> error + string"

text \<open>One row of the table the script builds (the dictionary \<open>video_data\<close>).\<close>

record video_data =
  Title :: json
  Views :: int
  Likes :: int
  Comments :: int
  Thumbnail :: json

text \<open>A pandas table: the column labels and the rows, each row holding one cell per
  column.\<close>

record dataframe =
  columns :: "string list"
  rows :: "json list list"

text \<open>What the page shows. Fixed captions, dividers, spinners and the layout are left
  out: they carry no data.\<close>

datatype widget =
    StImage json nat
  | StWrite string json
  | StBarChart dataframe string string
  | StLineChart dataframe string string
  | StSuccess string
  | StMarkdown string
  | StError string
  | StErrorExc error

text \<open>
  The state of one run of the script: the requests issued so far and the widgets shown so
  far, oldest first, and the flag \<open>st.session_state['analyze']\<close>.
\<close>

record state =
  requests :: "request list"
  widgets :: "widget list"
  analyze :: bool

type_synonym 'a io = "state \<Rightarrow> (error + 'a) \<times> state"

definition io_return :: "'a \<Rightarrow> 'a io" where
  "io_return x = (\<lambda>s. (Inr x, s))"

definition io_lift :: "error + 'a \<Rightarrow> 'a io" where
  "io_lift r = (\<lambda>s. (r, s))"

definition io_bind :: "'a io \<Rightarrow> ('a \<Rightarrow> 'b io) \<Rightarrow> 'b io" where
  "io_bind m f = (\<lambda>s. case m s of (Inl e, s') \<Rightarrow> (Inl e, s') | (Inr x, s') \<Rightarrow> f x s')"

text \<open>\<open>request.execute()\<close>: the request goes out and the service answers.\<close>

definition execute :: "youtube \<Rightarrow> request \<Rightarrow> json io" where
  "execute youtube request = (\<lambda>s. (youtube request, s\<lparr>requests := requests s @ [request]\<rparr>))"

text \<open>\<open>model.generate_content(prompt).text\<close>.\<close>

definition generate_content :: "genai \<Rightarrow> string \<Rightarrow> string \<Rightarrow> string io" where
  "generate_content genai model prompt =
     (\<lambda>s. (genai model prompt, s\<lparr>requests := requests s @ [GenerateContent model prompt]\<rparr>))"

subsection \<open>Channel Lookup\<close>

definition get_channel_stats :: "youtube \<Rightarrow> string \<Rightarrow> json io" where
  "get_channel_stats youtube channel_id =
     io_bind (execute youtube (ChannelsList ''snippet,contentDetails,statistics'' channel_id))
       (\<lambda>response.
     io_lift (bindE (getitem response ''items'') (\<lambda>items.
       if truthy items then getitem_int items 0 else Inr JNull)))"

subsection \<open>Playlist Enumerator\<close>

text \<open>The body of the \<open>for\<close> loop, with the list \<open>video_ids\<close> it appends to.\<close>

fun get_video_ids_loop :: "json list \<Rightarrow> json list \<Rightarrow> error + json list" where
  "get_video_ids_loop [] video_ids = Inr video_ids"
| "get_video_ids_loop (item # items) video_ids =
     bindE (subscripts item [''contentDetails'', ''videoId'']) (\<lambda>video_id.
     get_video_ids_loop items (video_ids @ [video_id]))"

definition get_video_ids :: "youtube \<Rightarrow> json \<Rightarrow> json list io" where
  "get_video_ids youtube playlist_id =
     io_bind (execute youtube (PlaylistItemsList ''contentDetails'' playlist_id 10))
       (\<lambda>response.
     io_lift (bindE (getitem response ''items'') (\<lambda>items.
       bindE (py_iter items) (\<lambda>items. get_video_ids_loop items []))))"

subsection \<open>Video Detail Fetcher\<close>

text \<open>The dictionary built for one video of the response; its entries are evaluated in
  the order they are written.\<close>

definition video_data_of :: "(string \<Rightarrow> int option) \<Rightarrow> json \<Rightarrow> error + video_data" where
  "video_data_of int_str video =
     bindE (getitem video ''statistics'') (\<lambda>stats.
     bindE (getitem video ''snippet'') (\<lambda>snippet.
     bindE (getitem snippet ''title'') (\<lambda>title.
     bindE (bindE (dict_get stats ''viewCount'' (JInt 0)) (py_int int_str)) (\<lambda>views.
     bindE (bindE (dict_get stats ''likeCount'' (JInt 0)) (py_int int_str)) (\<lambda>likes.
     bindE (bindE (dict_get stats ''commentCount'' (JInt 0)) (py_int int_str)) (\<lambda>comments.
     bindE (subscripts snippet [''thumbnails'', ''high'', ''url'']) (\<lambda>thumbnail.
     Inr \<lparr>Title = title, Views = views, Likes = likes, Comments = comments,
          Thumbnail = thumbnail\<rparr>)))))))"

fun get_video_details_loop ::
  "(string \<Rightarrow> int option) \<Rightarrow> json list \<Rightarrow> video_data list \<Rightarrow> error + video_data list" where
  "get_video_details_loop int_str [] all_video_info = Inr all_video_info"
| "get_video_details_loop int_str (video # videos) all_video_info =
     bindE (video_data_of int_str video) (\<lambda>video_data.
     get_video_details_loop int_str videos (all_video_info @ [video_data]))"

definition get_video_details ::
  "(string \<Rightarrow> int option) \<Rightarrow> youtube \<Rightarrow> json list \<Rightarrow> video_data list io" where
  "get_video_details int_str youtube video_ids =
     io_bind (io_lift (py_join '','' video_ids)) (\<lambda>ids.
     io_bind (execute youtube (VideosList ''snippet,statistics'' ids)) (\<lambda>response.
     io_lift (bindE (getitem response ''items'') (\<lambda>items.
       bindE (py_iter items) (\<lambda>videos. get_video_details_loop int_str videos [])))))"

subsection \<open>The table\<close>

text \<open>
  \<open>pd.DataFrame(video_data)\<close> on a list of dictionaries: the columns are the keys of the
  dictionaries, and every dictionary of the script has the same five; a table made from
  the empty list has no column at all.
\<close>

definition DataFrame :: "video_data list \<Rightarrow> dataframe" where
  "DataFrame data =
     (if data = [] then \<lparr>columns = [], rows = []\<rparr>
      else \<lparr>columns = [''Title'', ''Views'', ''Likes'', ''Comments'', ''Thumbnail''],
            rows = map (\<lambda>d. [Title d, JInt (Views d), JInt (Likes d), JInt (Comments d),
                            Thumbnail d]) data\<rparr>)"

text \<open>The cell of a row under a column label.\<close>

definition cell :: "string list \<Rightarrow> json list \<Rightarrow> string \<Rightarrow> json" where
  "cell labels row c = (case map_of (zip labels row) c of None \<Rightarrow> JNull | Some v \<Rightarrow> v)"

text \<open>\<open>df[labels]\<close> with a list of labels: the table of these columns, in the order
  asked for; \<open>KeyError\<close> when the table lacks one of them.\<close>

definition select :: "dataframe \<Rightarrow> string list \<Rightarrow> error + dataframe" where
  "select df labels =
     (if list_all (\<lambda>c. c \<in> set (columns df)) labels
      then Inr \<lparr>columns = labels,
                rows = map (\<lambda>row. map (cell (columns df) row) labels) (rows df)\<rparr>
      else Inl KeyError)"

text \<open>\<open>df.head(n)\<close>: the first \<open>n\<close> rows, in their order.\<close>

definition head :: "nat \<Rightarrow> dataframe \<Rightarrow> dataframe" where
  "head n df = df\<lparr>rows := take n (rows df)\<rparr>"

subsection \<open>Narrative Summarizer\<close>

text \<open>The two fixed parts of the prompt, before and after the table.\<close>

definition prompt_head :: string where
  "prompt_head =
     [CHR 0x0A] @ ''    You are a viral content consultant. '' @
     [CHR 0x0A] @ ''    Analyze these video stats:'' @
     [CHR 0x0A] @ ''    ''"

definition prompt_tail :: string where
  "prompt_tail =
     [CHR 0x0A] @ ''    '' @
     [CHR 0x0A] @ ''    1. Identify the highest performing video.'' @
     [CHR 0x0A] @ ''    2. Suggest 3 follow-up video titles that would go viral based on this style.'' @
     [CHR 0x0A] @ ''    3. Keep it short and exciting.'' @
     [CHR 0x0A] @ ''    ''"

text \<open>\<open>to_string\<close> is the rendering of a table by pandas, a parameter here.\<close>

definition analyze_with_gemini :: "genai \<Rightarrow> (dataframe \<Rightarrow> string) \<Rightarrow> dataframe \<Rightarrow> string io" where
  "analyze_with_gemini genai to_string df =
     io_bind (io_lift (select df [''Title'', ''Views'', ''Likes''])) (\<lambda>selected.
     let data_summary = to_string (head 5 selected);
         prompt = prompt_head @ data_summary @ prompt_tail
     in generate_content genai ''gemini-2.5-flash'' prompt)"

subsection \<open>The script\<close>

text \<open>
  What the script takes from its libraries: the reading of a \<open>str\<close> by \<open>int\<close>, the
  construction of the YouTube service from its key, the text model once configured with
  its key, the rendering of a table, and whether Streamlit accepts a widget that carries
  data (\<open>None\<close>) or raises.
\<close>

record platform =
  str_to_int :: "string \<Rightarrow> int option"
  discovery_build :: "json \<Rightarrow> error + youtube"
  genai_configure :: "json \<Rightarrow> genai"
  df_to_string :: "dataframe \<Rightarrow> string"
  st_render :: "widget \<Rightarrow> error option"

definition st_show :: "platform \<Rightarrow> widget \<Rightarrow> unit io" where
  "st_show P w =
     (\<lambda>s. case st_render P w of
             None \<Rightarrow> (Inr (), s\<lparr>widgets := widgets s @ [w]\<rparr>)
           | Some e \<Rightarrow> (Inl e, s))"

text \<open>A fixed message: \<open>st.error\<close>, \<open>st.success\<close>.\<close>

definition st_put :: "widget \<Rightarrow> unit io" where
  "st_put w = (\<lambda>s. (Inr (), s\<lparr>widgets := widgets s @ [w]\<rparr>))"

text \<open>The body of the \<open>try\<close> block of the main area.\<close>

definition pipeline :: "platform \<Rightarrow> json \<Rightarrow> genai \<Rightarrow> string \<Rightarrow> unit io" where
  "pipeline P YOUTUBE_API_KEY genai channel_id_input =
     io_bind (io_lift (discovery_build P YOUTUBE_API_KEY)) (\<lambda>youtube.
     io_bind (get_channel_stats youtube channel_id_input) (\<lambda>channel_info.
     if truthy channel_info then
       io_bind (io_lift (subscripts channel_info
                  [''snippet'', ''thumbnails'', ''medium'', ''url''])) (\<lambda>url.
       io_bind (st_show P (StImage url 100)) (\<lambda>_.
       io_bind (io_lift (subscripts channel_info [''snippet'', ''title''])) (\<lambda>title.
       io_bind (st_show P (StWrite ''**Channel:** '' title)) (\<lambda>_.
       io_bind (io_lift (subscripts channel_info
                  [''statistics'', ''subscriberCount''])) (\<lambda>subscribers.
       io_bind (st_show P (StWrite ''**Subscribers:** '' subscribers)) (\<lambda>_.
       io_bind (io_lift (subscripts channel_info
                  [''contentDetails'', ''relatedPlaylists'', ''uploads''])) (\<lambda>uploads_id.
       io_bind (get_video_ids youtube uploads_id) (\<lambda>video_ids.
       io_bind (get_video_details (str_to_int P) youtube video_ids) (\<lambda>video_data.
       let df = DataFrame video_data in
       io_bind (st_show P (StBarChart df ''Title'' ''Views'')) (\<lambda>_.
       io_bind (st_show P (StLineChart df ''Title'' ''Likes'')) (\<lambda>_.
       io_bind (analyze_with_gemini genai (df_to_string P) df) (\<lambda>analysis.
       io_bind (st_put (StSuccess ''Analysis Complete!'')) (\<lambda>_.
       st_show P (StMarkdown analysis))))))))))))))
     else st_put (StError ''Channel not found! Check the ID.'')))"

text \<open>\<open>try: ... except Exception as e: st.error(f"Error: {e}")\<close>.\<close>

definition main_area :: "platform \<Rightarrow> json \<Rightarrow> genai \<Rightarrow> string \<Rightarrow> state \<Rightarrow> state" where
  "main_area P YOUTUBE_API_KEY genai channel_id_input s =
     (case pipeline P YOUTUBE_API_KEY genai channel_id_input s of
        (Inl e, s') \<Rightarrow> s'\<lparr>widgets := widgets s' @ [StErrorExc e]\<rparr>
      | (Inr _, s') \<Rightarrow> s')"

text \<open>
  One run of the script, from the secrets to the main area. \<open>secrets\<close> is the secret
  store, \<open>button\<close> says whether "Analyze Channel" was pressed in this run. When a key is
  missing the script shows its message and \<open>st.stop()\<close> ends the run.
\<close>

definition app :: "platform \<Rightarrow> (string \<rightharpoonup> json) \<Rightarrow> string \<Rightarrow> bool \<Rightarrow> state \<Rightarrow> state" where
  "app P secrets channel_id_input button s =
     (case secrets ''YOUTUBE_API_KEY'' of
        None \<Rightarrow> s\<lparr>widgets := widgets s @ [StError
          ''Secrets not found! If running locally, make sure you have a .streamlit/secrets.toml file.'']\<rparr>
      | Some YOUTUBE_API_KEY \<Rightarrow>
     (case secrets ''GEMINI_API_KEY'' of
        None \<Rightarrow> s\<lparr>widgets := widgets s @ [StError
          ''Secrets not found! If running locally, make sure you have a .streamlit/secrets.toml file.'']\<rparr>
      | Some GEMINI_API_KEY \<Rightarrow>
          let genai = genai_configure P GEMINI_API_KEY;
              s1 = (if button then s\<lparr>analyze := True\<rparr> else s)
          in if analyze s1 then main_area P YOUTUBE_API_KEY genai channel_id_input s1 else s1))"

subsection \<open>Sample answers of the services\<close>

text \<open>Concrete inputs at which the theorems below are evaluated. \<open>decimal\<close> reads a
  string of ASCII digits, as \<open>int\<close> does on such a string.\<close>

definition decimal :: "string \<Rightarrow> int option" where
  "decimal s =
     (if s \<noteq> [] \<and> list_all (\<lambda>c. c \<in> set ''0123456789'') s
      then Some (foldl (\<lambda>n c. 10 * n + (of_char c - 48)) 0 s)
      else None)"

definition start :: state where
  "start = \<lparr>requests = [], widgets = [], analyze = False\<rparr>"

text \<open>A service that answers every request with the given items.\<close>

definition answer_with :: "json list \<Rightarrow> youtube" where
  "answer_with items request = Inr (JDict [(''kind'', JStr ''youtube#listResponse''),
                                           (''items'', JList items)])"

text \<open>A service whose answers have no \<open>items\<close> key.\<close>

definition answer_bare :: youtube where
  "answer_bare request = Inr (JDict [(''kind'', JStr ''youtube#listResponse'')])"

definition upload :: "string \<Rightarrow> json" where
  "upload video_id = JDict [(''contentDetails'', JDict [(''videoId'', JStr video_id)])]"

definition snippet_of :: "string \<Rightarrow> json" where
  "snippet_of title =
     JDict [(''title'', JStr title),
            (''thumbnails'', JDict [(''high'', JDict [(''url'', JStr ''https://i.ytimg.com/hq.jpg'')])])]"

text \<open>A video whose comments are disabled, and a video with all three counters.\<close>

definition video_a :: json where
  "video_a = JDict [(''id'', JStr ''a''), (''snippet'', snippet_of ''Alpha''),
                    (''statistics'', JDict [(''viewCount'', JStr ''1200''),
                                            (''likeCount'', JStr ''30'')])]"

definition video_b :: json where
  "video_b = JDict [(''id'', JStr ''b''), (''snippet'', snippet_of ''Beta''),
                    (''statistics'', JDict [(''viewCount'', JStr ''75''),
                                            (''likeCount'', JStr ''4''),
                                            (''commentCount'', JStr ''2'')])]"

text \<open>A video without a statistics block, and a video whose thumbnails have no
  \<open>high\<close> entry.\<close>

definition video_no_statistics :: json where
  "video_no_statistics = JDict [(''id'', JStr ''c''), (''snippet'', snippet_of ''Gamma'')]"

definition video_no_high :: json where
  "video_no_high =
     JDict [(''id'', JStr ''d''),
            (''snippet'', JDict [(''title'', JStr ''Delta''),
                                 (''thumbnails'', JDict [(''default'', JDict [(''url'', JStr ''https://i.ytimg.com/d.jpg'')])])]),
            (''statistics'', JDict [(''viewCount'', JStr ''9'')])]"

definition echo :: genai where
  "echo model prompt = Inr prompt"

text \<open>A rendering that prints the column labels and one star per row.\<close>

definition plain :: "dataframe \<Rightarrow> string" where
  "plain df = join '' '' (columns df) @ '': '' @ replicate (length (rows df)) (CHR ''*'')"

definition demo :: "youtube \<Rightarrow> platform" where
  "demo youtube =
     \<lparr>str_to_int = decimal, discovery_build = (\<lambda>key. Inr youtube),
      genai_configure = (\<lambda>key. echo), df_to_string = plain, st_render = (\<lambda>w. None)\<rparr>"

subsection \<open>Rules for the sequencing operators\<close>

lemma io_bind_Inr: "m s = (Inr x, s') \<Longrightarrow> io_bind m f s = f x s'"
  by (simp add: io_bind_def)

lemma io_bind_Inl: "m s = (Inl e, s') \<Longrightarrow> io_bind m f s = (Inl e, s')"
  by (simp add: io_bind_def)

lemma io_bind_lift: "io_bind (io_lift r) f s = (case r of Inl e \<Rightarrow> (Inl e, s) | Inr x \<Rightarrow> f x s)"
  by (simp add: io_bind_def io_lift_def split: sum.splits)

lemma io_bind_execute:
  "io_bind (execute youtube request) f s =
     (case youtube request of
        Inl e \<Rightarrow> (Inl e, s\<lparr>requests := requests s @ [request]\<rparr>)
      | Inr x \<Rightarrow> f x (s\<lparr>requests := requests s @ [request]\<rparr>))"
  by (simp add: io_bind_def execute_def split: sum.splits)

lemma io_lift_apply: "io_lift r s = (r, s)"
  by (simp add: io_lift_def)

subsection \<open>The two loops\<close>

text \<open>A loop returns normally exactly when its body does so on every element, and then it
  has appended one result per element, in order.\<close>

lemma get_video_details_loop_iff:
  "get_video_details_loop int_str videos acc = Inr out \<longleftrightarrow>
     (\<exists>rs. map (video_data_of int_str) videos = map Inr rs \<and> out = acc @ rs)"
proof (induction videos arbitrary: acc)
  case Nil
  then show ?case by auto
next
  case (Cons v vs)
  show ?case
  proof (cases "video_data_of int_str v")
    case (Inl e)
    then show ?thesis by auto
  next
    case (Inr r)
    then show ?thesis
      by (auto simp: Cons.IH map_eq_Cons_conv)
  qed
qed

lemma get_video_ids_loop_iff:
  "get_video_ids_loop items acc = Inr out \<longleftrightarrow>
     (\<exists>ids. map (\<lambda>item. subscripts item [''contentDetails'', ''videoId'']) items = map Inr ids
        \<and> out = acc @ ids)"
proof (induction items arbitrary: acc)
  case Nil
  then show ?case by auto
next
  case (Cons v vs)
  show ?case
  proof (cases "subscripts v [''contentDetails'', ''videoId'']")
    case (Inl e)
    then show ?thesis by auto
  next
    case (Inr r)
    then show ?thesis
      by (auto simp: Cons.IH map_eq_Cons_conv)
  qed
qed

lemma get_video_details_loop_raises:
  assumes "video \<in> set videos" and "video_data_of int_str video = Inl e"
  shows "\<exists>e'. get_video_details_loop int_str videos acc = Inl e'"
proof (cases "get_video_details_loop int_str videos acc")
  case (Inl e')
  then show ?thesis by blast
next
  case (Inr out)
  then obtain rs where "map (video_data_of int_str) videos = map Inr rs"
    by (auto simp: get_video_details_loop_iff)
  then have "video_data_of int_str video \<in> Inr ` set rs"
    using assms(1) by (metis image_eqI list.set_map)
  with assms(2) show ?thesis by auto
qed

subsection \<open>One run of each function\<close>

lemma get_channel_stats_run:
  "get_channel_stats youtube channel_id s =
     (bindE (youtube (ChannelsList ''snippet,contentDetails,statistics'' channel_id)) (\<lambda>response.
        bindE (getitem response ''items'') (\<lambda>items.
          if truthy items then getitem_int items 0 else Inr JNull)),
      s\<lparr>requests := requests s @ [ChannelsList ''snippet,contentDetails,statistics'' channel_id]\<rparr>)"
  by (simp add: get_channel_stats_def io_bind_execute io_lift_apply split: sum.splits)

lemma get_video_ids_run:
  assumes "youtube (PlaylistItemsList ''contentDetails'' playlist_id 10) = Inr response"
    and "getitem response ''items'' = Inr (JList items)"
  shows "get_video_ids youtube playlist_id s =
           (get_video_ids_loop items [],
            s\<lparr>requests := requests s @ [PlaylistItemsList ''contentDetails'' playlist_id 10]\<rparr>)"
  using assms by (simp add: get_video_ids_def io_bind_execute io_lift_apply)

lemma get_video_details_run:
  assumes "py_join '','' video_ids = Inr ids"
    and "youtube (VideosList ''snippet,statistics'' ids) = Inr response"
    and "getitem response ''items'' = Inr (JList items)"
  shows "get_video_details int_str youtube video_ids s =
           (get_video_details_loop int_str items [],
            s\<lparr>requests := requests s @ [VideosList ''snippet,statistics'' ids]\<rparr>)"
  using assms by (simp add: get_video_details_def io_bind_lift io_bind_execute io_lift_apply)

section \<open>The claims\<close>

subsection \<open>Video Detail Fetcher on an empty list of identifiers\<close>

text \<open>
  C1, as stated: for an empty sequence of video identifiers \<open>get_video_details\<close> returns
  an empty record set without issuing any external request. The function has no guard for
  the empty list: it joins the identifiers to the empty string and executes the request
  all the same, as the run below shows.
\<close>

theorem get_video_details_empty_input_counterexample:
  "requests start = [] \<and>
   get_video_details decimal (answer_with []) [] start =
     (Inr [], start\<lparr>requests := [VideosList ''snippet,statistics'' []]\<rparr>)"
  by (simp add: get_video_details_def io_bind_lift io_bind_execute io_lift_apply py_join_def answer_with_def start_def)

text \<open>
  C1, amended: for an empty sequence of video identifiers \<open>get_video_details\<close> issues
  exactly one request, the videos list call with an empty \<open>id\<close>, and returns the empty
  record set when the answer to that request holds no items.
\<close>

theorem get_video_details_empty_input:
  "requests (snd (get_video_details int_str youtube [] s)) =
     requests s @ [VideosList ''snippet,statistics'' []] \<and>
   (youtube (VideosList ''snippet,statistics'' []) = Inr response \<longrightarrow>
    getitem response ''items'' = Inr (JList []) \<longrightarrow>
    fst (get_video_details int_str youtube [] s) = Inr [])"
  by (simp add: get_video_details_def io_bind_lift io_bind_execute io_lift_apply py_join_def
      split: sum.splits)

theorem get_video_details_empty_input_witness:
  "answer_with [] (VideosList ''snippet,statistics'' []) =
     Inr (JDict [(''kind'', JStr ''youtube#listResponse''), (''items'', JList [])]) \<and>
   getitem (JDict [(''kind'', JStr ''youtube#listResponse''), (''items'', JList [])]) ''items'' =
     Inr (JList []) \<and>
   requests (snd (get_video_details decimal (answer_with []) [] start)) =
     requests start @ [VideosList ''snippet,statistics'' []] \<and>
   fst (get_video_details decimal (answer_with []) [] start) = Inr []"
  using get_video_details_empty_input [of decimal "answer_with []" start
      "JDict [(''kind'', JStr ''youtube#listResponse''), (''items'', JList [])]"]
  by (simp add: answer_with_def)

subsection \<open>Playlist Enumerator: how many identifiers\<close>

text \<open>
  C5, as stated: whatever the answer to the playlist request holds, \<open>get_video_ids\<close>
  returns at most 10 identifiers. The function asks for at most 10 items but does not cut
  the answer: an answer with 11 items gives 11 identifiers.
\<close>

theorem get_video_ids_at_most_ten_counterexample:
  "fst (get_video_ids (answer_with (replicate 11 (upload ''v''))) (JStr ''UU'') start) =
     Inr (replicate 11 (JStr ''v'')) \<and>
   \<not> length (replicate 11 (JStr ''v'')) \<le> 10"
  by (simp add: get_video_ids_def io_bind_execute io_lift_apply answer_with_def upload_def start_def eval_nat_numeral)

text \<open>
  C5, amended: \<open>get_video_ids\<close> issues one playlist request with \<open>maxResults = 10\<close> and
  returns exactly one identifier per item of the answer, in the order of the answer; so it
  returns at most 10 identifiers whenever the answer holds at most 10 items.
\<close>

theorem get_video_ids_one_per_item:
  assumes "youtube (PlaylistItemsList ''contentDetails'' playlist_id 10) = Inr response"
    and "getitem response ''items'' = Inr (JList items)"
    and "fst (get_video_ids youtube playlist_id s) = Inr video_ids"
  shows "requests (snd (get_video_ids youtube playlist_id s)) =
           requests s @ [PlaylistItemsList ''contentDetails'' playlist_id 10] \<and>
         map (\<lambda>item. subscripts item [''contentDetails'', ''videoId'']) items =
           map Inr video_ids \<and>
         length video_ids = length items \<and>
         (length items \<le> 10 \<longrightarrow> length video_ids \<le> 10)"
proof -
  have run: "get_video_ids youtube playlist_id s =
      (get_video_ids_loop items [],
       s\<lparr>requests := requests s @ [PlaylistItemsList ''contentDetails'' playlist_id 10]\<rparr>)"
    using assms(1,2) by (rule get_video_ids_run)
  with assms(3) have "get_video_ids_loop items [] = Inr video_ids"
    by simp
  then have ids: "map (\<lambda>item. subscripts item [''contentDetails'', ''videoId'']) items =
      map Inr video_ids"
    by (simp add: get_video_ids_loop_iff)
  then have "length items = length video_ids"
    by (rule map_eq_imp_length_eq)
  with run ids show ?thesis by simp
qed

theorem get_video_ids_one_per_item_witness:
  "fst (get_video_ids (answer_with [upload ''a'', upload ''b'']) (JStr ''UU'') start) =
     Inr [JStr ''a'', JStr ''b''] \<and>
   requests (snd (get_video_ids (answer_with [upload ''a'', upload ''b'']) (JStr ''UU'') start)) =
     requests start @ [PlaylistItemsList ''contentDetails'' (JStr ''UU'') 10] \<and>
   length [JStr ''a'', JStr ''b''] = length [upload ''a'', upload ''b''] \<and>
   length [JStr ''a'', JStr ''b''] \<le> 10"
proof -
  have a: "answer_with [upload ''a'', upload ''b''] (PlaylistItemsList ''contentDetails'' (JStr ''UU'') 10)
      = Inr (JDict [(''kind'', JStr ''youtube#listResponse''),
                    (''items'', JList [upload ''a'', upload ''b''])])"
    by (simp add: answer_with_def)
  have b: "getitem (JDict [(''kind'', JStr ''youtube#listResponse''),
                    (''items'', JList [upload ''a'', upload ''b''])]) ''items''
      = Inr (JList [upload ''a'', upload ''b''])"
    by simp
  have c: "fst (get_video_ids (answer_with [upload ''a'', upload ''b'']) (JStr ''UU'') start) =
     Inr [JStr ''a'', JStr ''b'']"
    by (simp add: get_video_ids_def io_bind_execute io_lift_apply answer_with_def upload_def start_def)
  show ?thesis
    using a b c
      get_video_ids_one_per_item [where youtube = "answer_with [upload ''a'', upload ''b'']"
        and playlist_id = "JStr ''UU''" and s = start
        and items = "[upload ''a'', upload ''b'']" and video_ids = "[JStr ''a'', JStr ''b'']"
        and response = "JDict [(''kind'', JStr ''youtube#listResponse''),
                               (''items'', JList [upload ''a'', upload ''b''])]"]
    by simp
qed

subsection \<open>Video Detail Fetcher: one record per item, in the order of the answer\<close>

text \<open>
  C6: the records \<open>get_video_details\<close> returns are those of the items of the answer,
  one record per item and in the order of the answer, whatever the order of the
  identifiers it was called with. The function returns a list of records exactly when
  that list is, element by element, what the loop body makes of the items of the answer.
\<close>

theorem get_video_details_response_order:
  assumes "py_join '','' video_ids = Inr ids"
    and "youtube (VideosList ''snippet,statistics'' ids) = Inr response"
    and "getitem response ''items'' = Inr (JList items)"
  shows "fst (get_video_details int_str youtube video_ids s) = Inr records \<longleftrightarrow>
           map (video_data_of int_str) items = map Inr records"
proof -
  have "get_video_details int_str youtube video_ids s =
      (get_video_details_loop int_str items [],
       s\<lparr>requests := requests s @ [VideosList ''snippet,statistics'' ids]\<rparr>)"
    using assms by (rule get_video_details_run)
  then show ?thesis
    by (simp add: get_video_details_loop_iff)
qed

theorem get_video_details_response_order_witness:
  "py_join '','' [JStr ''a'', JStr ''b''] = Inr ''a,b'' \<and>
   answer_with [video_b, video_a] (VideosList ''snippet,statistics'' ''a,b'') =
     Inr (JDict [(''kind'', JStr ''youtube#listResponse''), (''items'', JList [video_b, video_a])]) \<and>
   map (video_data_of decimal) [video_b, video_a] =
     map Inr [\<lparr>Title = JStr ''Beta'', Views = 75, Likes = 4, Comments = 2,
                 Thumbnail = JStr ''https://i.ytimg.com/hq.jpg''\<rparr>,
              \<lparr>Title = JStr ''Alpha'', Views = 1200, Likes = 30, Comments = 0,
                 Thumbnail = JStr ''https://i.ytimg.com/hq.jpg''\<rparr>] \<and>
   fst (get_video_details decimal (answer_with [video_b, video_a]) [JStr ''a'', JStr ''b''] start) =
     Inr [\<lparr>Title = JStr ''Beta'', Views = 75, Likes = 4, Comments = 2,
             Thumbnail = JStr ''https://i.ytimg.com/hq.jpg''\<rparr>,
          \<lparr>Title = JStr ''Alpha'', Views = 1200, Likes = 30, Comments = 0,
             Thumbnail = JStr ''https://i.ytimg.com/hq.jpg''\<rparr>]"
proof -
  have a: "py_join '','' [JStr ''a'', JStr ''b''] = Inr ''a,b''"
    by (simp add: py_join_def)
  have b: "answer_with [video_b, video_a] (VideosList ''snippet,statistics'' ''a,b'') =
     Inr (JDict [(''kind'', JStr ''youtube#listResponse''), (''items'', JList [video_b, video_a])])"
    by (simp add: answer_with_def)
  have c: "getitem (JDict [(''kind'', JStr ''youtube#listResponse''),
                           (''items'', JList [video_b, video_a])]) ''items'' =
     Inr (JList [video_b, video_a])"
    by simp
  have d: "map (video_data_of decimal) [video_b, video_a] =
     map Inr [\<lparr>Title = JStr ''Beta'', Views = 75, Likes = 4, Comments = 2,
                 Thumbnail = JStr ''https://i.ytimg.com/hq.jpg''\<rparr>,
              \<lparr>Title = JStr ''Alpha'', Views = 1200, Likes = 30, Comments = 0,
                 Thumbnail = JStr ''https://i.ytimg.com/hq.jpg''\<rparr>]"
    by (simp add: video_data_of_def video_a_def video_b_def snippet_of_def decimal_def)
  show ?thesis
    using a b d
      get_video_details_response_order [where video_ids = "[JStr ''a'', JStr ''b'']"
        and ids = "''a,b''" and youtube = "answer_with [video_b, video_a]"
        and items = "[video_b, video_a]" and int_str = decimal and s = start
        and response = "JDict [(''kind'', JStr ''youtube#listResponse''),
                               (''items'', JList [video_b, video_a])]", OF a b c]
    by simp
qed

subsection \<open>Video Detail Fetcher: counters that are absent\<close>

text \<open>What the loop body returns for a video whose blocks are in place.\<close>

lemma video_data_of_blocks:
  assumes "getitem video ''statistics'' = Inr (JDict stats)"
    and "subscripts video [''snippet'', ''title''] = Inr title"
    and "subscripts video [''snippet'', ''thumbnails'', ''high'', ''url''] = Inr thumbnail"
  shows "video_data_of int_str video =
     bindE (py_int int_str (case map_of stats ''viewCount'' of None \<Rightarrow> JInt 0 | Some v \<Rightarrow> v))
       (\<lambda>views.
     bindE (py_int int_str (case map_of stats ''likeCount'' of None \<Rightarrow> JInt 0 | Some v \<Rightarrow> v))
       (\<lambda>likes.
     bindE (py_int int_str (case map_of stats ''commentCount'' of None \<Rightarrow> JInt 0 | Some v \<Rightarrow> v))
       (\<lambda>comments.
     Inr \<lparr>Title = title, Views = views, Likes = likes, Comments = comments,
          Thumbnail = thumbnail\<rparr>)))"
proof (cases "getitem video ''snippet''")
  case (Inl e)
  with assms(2) show ?thesis by simp
next
  case (Inr snippet)
  with assms show ?thesis
    by (simp add: video_data_of_def split: sum.splits)
qed

text \<open>The value a counter takes: 0 when its key is absent, \<open>int\<close> of the entry
  otherwise.\<close>

lemma counter_value:
  assumes "\<forall>v. map_of stats k = Some v \<longrightarrow> (\<exists>n. py_int int_str v = Inr n)"
  shows "\<exists>n. py_int int_str (case map_of stats k of None \<Rightarrow> JInt 0 | Some v \<Rightarrow> v) = Inr n \<and>
             (map_of stats k = None \<longrightarrow> n = 0) \<and>
             (\<forall>v. map_of stats k = Some v \<longrightarrow> py_int int_str v = Inr n)"
  using assms by (cases "map_of stats k") auto

lemma video_data_of_defaults:
  assumes "getitem video ''statistics'' = Inr (JDict stats)"
    and "subscripts video [''snippet'', ''title''] = Inr title"
    and "subscripts video [''snippet'', ''thumbnails'', ''high'', ''url''] = Inr thumbnail"
    and "\<forall>k \<in> {''viewCount'', ''likeCount'', ''commentCount''}. \<forall>v.
           map_of stats k = Some v \<longrightarrow> (\<exists>n. py_int int_str v = Inr n)"
  shows "\<exists>r. video_data_of int_str video = Inr r \<and>
           (map_of stats ''viewCount'' = None \<longrightarrow> Views r = 0) \<and>
           (map_of stats ''likeCount'' = None \<longrightarrow> Likes r = 0) \<and>
           (map_of stats ''commentCount'' = None \<longrightarrow> Comments r = 0) \<and>
           subscripts video [''snippet'', ''title''] = Inr (Title r) \<and>
           (\<forall>v. map_of stats ''viewCount'' = Some v \<longrightarrow> py_int int_str v = Inr (Views r)) \<and>
           (\<forall>v. map_of stats ''likeCount'' = Some v \<longrightarrow> py_int int_str v = Inr (Likes r)) \<and>
           (\<forall>v. map_of stats ''commentCount'' = Some v \<longrightarrow> py_int int_str v = Inr (Comments r))"
proof -
  have "\<forall>v. map_of stats ''viewCount'' = Some v \<longrightarrow> (\<exists>n. py_int int_str v = Inr n)"
    using assms(4) by simp
  from counter_value [OF this] obtain views where views:
    "py_int int_str (case map_of stats ''viewCount'' of None \<Rightarrow> JInt 0 | Some v \<Rightarrow> v) = Inr views"
    "map_of stats ''viewCount'' = None \<longrightarrow> views = 0"
    "\<forall>v. map_of stats ''viewCount'' = Some v \<longrightarrow> py_int int_str v = Inr views"
    by (elim exE conjE)
  have "\<forall>v. map_of stats ''likeCount'' = Some v \<longrightarrow> (\<exists>n. py_int int_str v = Inr n)"
    using assms(4) by simp
  from counter_value [OF this] obtain likes where likes:
    "py_int int_str (case map_of stats ''likeCount'' of None \<Rightarrow> JInt 0 | Some v \<Rightarrow> v) = Inr likes"
    "map_of stats ''likeCount'' = None \<longrightarrow> likes = 0"
    "\<forall>v. map_of stats ''likeCount'' = Some v \<longrightarrow> py_int int_str v = Inr likes"
    by (elim exE conjE)
  have "\<forall>v. map_of stats ''commentCount'' = Some v \<longrightarrow> (\<exists>n. py_int int_str v = Inr n)"
    using assms(4) by simp
  from counter_value [OF this] obtain comments where comments:
    "py_int int_str (case map_of stats ''commentCount'' of None \<Rightarrow> JInt 0 | Some v \<Rightarrow> v) = Inr comments"
    "map_of stats ''commentCount'' = None \<longrightarrow> comments = 0"
    "\<forall>v. map_of stats ''commentCount'' = Some v \<longrightarrow> py_int int_str v = Inr comments"
    by (elim exE conjE)
  have "video_data_of int_str video =
      Inr \<lparr>Title = title, Views = views, Likes = likes, Comments = comments,
           Thumbnail = thumbnail\<rparr>"
    by (simp add: video_data_of_blocks [OF assms(1-3)] views(1) likes(1) comments(1))
  with views(2,3) likes(2,3) comments(2,3) assms(2) show ?thesis
    by (intro exI [of _ "\<lparr>Title = title, Views = views, Likes = likes, Comments = comments,
           Thumbnail = thumbnail\<rparr>"]) simp
qed

text \<open>
  C2: take an answer in which every video has its statistics block, its title and its
  thumbnail address, and in which every counter that is present can be read as an integer.
  Then \<open>get_video_details\<close> raises nothing and returns one record per video, and in the
  record of each video every counter among \<open>viewCount\<close>, \<open>likeCount\<close> and
  \<open>commentCount\<close> that is absent from the statistics block is 0, so not negative,
  while the title is the title of the snippet and every counter that is present is the
  integer read from its entry.
\<close>

theorem absent_counters_are_zero:
  assumes "py_join '','' video_ids = Inr ids"
    and "youtube (VideosList ''snippet,statistics'' ids) = Inr response"
    and "getitem response ''items'' = Inr (JList items)"
    and "\<forall>video \<in> set items. \<exists>stats title thumbnail.
           getitem video ''statistics'' = Inr (JDict stats) \<and>
           subscripts video [''snippet'', ''title''] = Inr title \<and>
           subscripts video [''snippet'', ''thumbnails'', ''high'', ''url''] = Inr thumbnail \<and>
           (\<forall>k \<in> {''viewCount'', ''likeCount'', ''commentCount''}. \<forall>v.
              map_of stats k = Some v \<longrightarrow> (\<exists>n. py_int int_str v = Inr n))"
  shows "\<exists>records.
           fst (get_video_details int_str youtube video_ids s) = Inr records \<and>
           length records = length items \<and>
           (\<forall>i < length items. \<forall>stats.
              getitem (items ! i) ''statistics'' = Inr (JDict stats) \<longrightarrow>
                (map_of stats ''viewCount'' = None \<longrightarrow> Views (records ! i) = 0) \<and>
                (map_of stats ''likeCount'' = None \<longrightarrow> Likes (records ! i) = 0) \<and>
                (map_of stats ''commentCount'' = None \<longrightarrow> Comments (records ! i) = 0) \<and>
                subscripts (items ! i) [''snippet'', ''title''] = Inr (Title (records ! i)) \<and>
                (\<forall>v. map_of stats ''viewCount'' = Some v \<longrightarrow>
                   py_int int_str v = Inr (Views (records ! i))) \<and>
                (\<forall>v. map_of stats ''likeCount'' = Some v \<longrightarrow>
                   py_int int_str v = Inr (Likes (records ! i))) \<and>
                (\<forall>v. map_of stats ''commentCount'' = Some v \<longrightarrow>
                   py_int int_str v = Inr (Comments (records ! i))))"
proof -
  define props where "props video r \<longleftrightarrow>
      (\<forall>stats. getitem video ''statistics'' = Inr (JDict stats) \<longrightarrow>
         (map_of stats ''viewCount'' = None \<longrightarrow> Views r = 0) \<and>
         (map_of stats ''likeCount'' = None \<longrightarrow> Likes r = 0) \<and>
         (map_of stats ''commentCount'' = None \<longrightarrow> Comments r = 0) \<and>
         subscripts video [''snippet'', ''title''] = Inr (Title r) \<and>
         (\<forall>v. map_of stats ''viewCount'' = Some v \<longrightarrow> py_int int_str v = Inr (Views r)) \<and>
         (\<forall>v. map_of stats ''likeCount'' = Some v \<longrightarrow> py_int int_str v = Inr (Likes r)) \<and>
         (\<forall>v. map_of stats ''commentCount'' = Some v \<longrightarrow> py_int int_str v = Inr (Comments r)))"
    for video and r :: video_data
  have "\<forall>video \<in> set items. \<exists>r. video_data_of int_str video = Inr r \<and> props video r"
  proof
    fix video assume "video \<in> set items"
    with assms(4) obtain stats title thumbnail where v:
      "getitem video ''statistics'' = Inr (JDict stats)"
      "subscripts video [''snippet'', ''title''] = Inr title"
      "subscripts video [''snippet'', ''thumbnails'', ''high'', ''url''] = Inr thumbnail"
      "\<forall>k \<in> {''viewCount'', ''likeCount'', ''commentCount''}. \<forall>v.
           map_of stats k = Some v \<longrightarrow> (\<exists>n. py_int int_str v = Inr n)"
      by (elim ballE [of _ _ video] exE conjE) simp_all
    from video_data_of_defaults [OF v] obtain r where r0:
      "video_data_of int_str video = Inr r \<and>
       (map_of stats ''viewCount'' = None \<longrightarrow> Views r = 0) \<and>
       (map_of stats ''likeCount'' = None \<longrightarrow> Likes r = 0) \<and>
       (map_of stats ''commentCount'' = None \<longrightarrow> Comments r = 0) \<and>
       subscripts video [''snippet'', ''title''] = Inr (Title r) \<and>
       (\<forall>v. map_of stats ''viewCount'' = Some v \<longrightarrow> py_int int_str v = Inr (Views r)) \<and>
       (\<forall>v. map_of stats ''likeCount'' = Some v \<longrightarrow> py_int int_str v = Inr (Likes r)) \<and>
       (\<forall>v. map_of stats ''commentCount'' = Some v \<longrightarrow> py_int int_str v = Inr (Comments r))" ..
    from r0 have r1: "video_data_of int_str video = Inr r"
      by (rule conjunct1)
    from r0 have r2:
      "(map_of stats ''viewCount'' = None \<longrightarrow> Views r = 0) \<and>
       (map_of stats ''likeCount'' = None \<longrightarrow> Likes r = 0) \<and>
       (map_of stats ''commentCount'' = None \<longrightarrow> Comments r = 0) \<and>
       subscripts video [''snippet'', ''title''] = Inr (Title r) \<and>
       (\<forall>v. map_of stats ''viewCount'' = Some v \<longrightarrow> py_int int_str v = Inr (Views r)) \<and>
       (\<forall>v. map_of stats ''likeCount'' = Some v \<longrightarrow> py_int int_str v = Inr (Likes r)) \<and>
       (\<forall>v. map_of stats ''commentCount'' = Some v \<longrightarrow> py_int int_str v = Inr (Comments r))"
      by (rule conjunct2)
    have "props video r"
      unfolding props_def
    proof (intro allI impI)
      fix stats' assume "getitem video ''statistics'' = Inr (JDict stats')"
      with v(1) have eq: "stats' = stats" by simp
      show "(map_of stats' ''viewCount'' = None \<longrightarrow> Views r = 0) \<and>
       (map_of stats' ''likeCount'' = None \<longrightarrow> Likes r = 0) \<and>
       (map_of stats' ''commentCount'' = None \<longrightarrow> Comments r = 0) \<and>
       subscripts video [''snippet'', ''title''] = Inr (Title r) \<and>
       (\<forall>v. map_of stats' ''viewCount'' = Some v \<longrightarrow> py_int int_str v = Inr (Views r)) \<and>
       (\<forall>v. map_of stats' ''likeCount'' = Some v \<longrightarrow> py_int int_str v = Inr (Likes r)) \<and>
       (\<forall>v. map_of stats' ''commentCount'' = Some v \<longrightarrow> py_int int_str v = Inr (Comments r))"
        unfolding eq by (rule r2)
    qed
    with r1 show "\<exists>r. video_data_of int_str video = Inr r \<and> props video r"
      by (intro exI [of _ r] conjI)
  qed
  from bchoice [OF this] obtain f where
    f: "\<forall>video \<in> set items. video_data_of int_str video = Inr (f video) \<and> props video (f video)"
    by (elim exE)
  have run: "get_video_details int_str youtube video_ids s =
      (get_video_details_loop int_str items [],
       s\<lparr>requests := requests s @ [VideosList ''snippet,statistics'' ids]\<rparr>)"
    using assms(1-3) by (rule get_video_details_run)
  have "map (video_data_of int_str) items = map Inr (map f items)"
    using f by simp
  then have 1: "fst (get_video_details int_str youtube video_ids s) = Inr (map f items)"
    by (simp add: run get_video_details_loop_iff)
  have 2: "length (map f items) = length items"
    by simp
  have 3: "\<forall>i < length items. props (items ! i) (map f items ! i)"
    using f by simp
  have "\<exists>records.
      fst (get_video_details int_str youtube video_ids s) = Inr records \<and>
      length records = length items \<and>
      (\<forall>i < length items. props (items ! i) (records ! i))"
    using 1 2 3 by (intro exI [of _ "map f items"] conjI)
  then show ?thesis
    unfolding props_def .
qed

theorem absent_counters_are_zero_witness:
  "fst (get_video_details decimal (answer_with [video_b, video_a]) [JStr ''a'', JStr ''b''] start) =
     Inr [\<lparr>Title = JStr ''Beta'', Views = 75, Likes = 4, Comments = 2,
             Thumbnail = JStr ''https://i.ytimg.com/hq.jpg''\<rparr>,
          \<lparr>Title = JStr ''Alpha'', Views = 1200, Likes = 30, Comments = 0,
             Thumbnail = JStr ''https://i.ytimg.com/hq.jpg''\<rparr>] \<and>
   getitem video_a ''statistics'' =
     Inr (JDict [(''viewCount'', JStr ''1200''), (''likeCount'', JStr ''30'')]) \<and>
   map_of [(''viewCount'', JStr ''1200''), (''likeCount'', JStr ''30'')] ''commentCount'' = None \<and>
   (\<exists>records.
      fst (get_video_details decimal (answer_with [video_b, video_a])
             [JStr ''a'', JStr ''b''] start) = Inr records \<and>
      length records = 2 \<and> Comments (records ! 1) = 0 \<and> Views (records ! 1) = 1200 \<and>
      Likes (records ! 1) = 30 \<and> Title (records ! 1) = JStr ''Alpha'')"
proof -
  have a: "py_join '','' [JStr ''a'', JStr ''b''] = Inr ''a,b''"
    by (simp add: py_join_def)
  have b: "answer_with [video_b, video_a] (VideosList ''snippet,statistics'' ''a,b'') =
     Inr (JDict [(''kind'', JStr ''youtube#listResponse''), (''items'', JList [video_b, video_a])])"
    by (simp add: answer_with_def)
  have c: "getitem (JDict [(''kind'', JStr ''youtube#listResponse''),
                           (''items'', JList [video_b, video_a])]) ''items'' =
     Inr (JList [video_b, video_a])"
    by simp
  have d: "\<forall>video \<in> set [video_b, video_a]. \<exists>stats title thumbnail.
           getitem video ''statistics'' = Inr (JDict stats) \<and>
           subscripts video [''snippet'', ''title''] = Inr title \<and>
           subscripts video [''snippet'', ''thumbnails'', ''high'', ''url''] = Inr thumbnail \<and>
           (\<forall>k \<in> {''viewCount'', ''likeCount'', ''commentCount''}. \<forall>v.
              map_of stats k = Some v \<longrightarrow> (\<exists>n. py_int decimal v = Inr n))"
    by (simp add: video_a_def video_b_def snippet_of_def decimal_def)
  have e: "fst (get_video_details decimal (answer_with [video_b, video_a])
             [JStr ''a'', JStr ''b''] start) =
     Inr [\<lparr>Title = JStr ''Beta'', Views = 75, Likes = 4, Comments = 2,
             Thumbnail = JStr ''https://i.ytimg.com/hq.jpg''\<rparr>,
          \<lparr>Title = JStr ''Alpha'', Views = 1200, Likes = 30, Comments = 0,
             Thumbnail = JStr ''https://i.ytimg.com/hq.jpg''\<rparr>]"
    by (simp add: get_video_details_def io_bind_lift io_bind_execute io_lift_apply py_join_def
        answer_with_def video_data_of_def video_a_def video_b_def snippet_of_def decimal_def)
  have f: "getitem video_a ''statistics'' =
     Inr (JDict [(''viewCount'', JStr ''1200''), (''likeCount'', JStr ''30'')])"
    by (simp add: video_a_def)
  from absent_counters_are_zero [where video_ids = "[JStr ''a'', JStr ''b'']"
      and ids = "''a,b''" and youtube = "answer_with [video_b, video_a]"
      and items = "[video_b, video_a]" and int_str = decimal and s = start
      and response = "JDict [(''kind'', JStr ''youtube#listResponse''),
                             (''items'', JList [video_b, video_a])]", OF a b c d]
  obtain records where r:
    "fst (get_video_details decimal (answer_with [video_b, video_a])
            [JStr ''a'', JStr ''b''] start) = Inr records"
    "length records = length [video_b, video_a]"
    "\<forall>i < length [video_b, video_a]. \<forall>stats.
        getitem ([video_b, video_a] ! i) ''statistics'' = Inr (JDict stats) \<longrightarrow>
          (map_of stats ''commentCount'' = None \<longrightarrow> Comments (records ! i) = 0) \<and>
          subscripts ([video_b, video_a] ! i) [''snippet'', ''title''] = Inr (Title (records ! i)) \<and>
          (\<forall>v. map_of stats ''viewCount'' = Some v \<longrightarrow>
             py_int decimal v = Inr (Views (records ! i))) \<and>
          (\<forall>v. map_of stats ''likeCount'' = Some v \<longrightarrow>
             py_int decimal v = Inr (Likes (records ! i)))"
    by blast
  have g: "getitem ([video_b, video_a] ! 1) ''statistics'' =
     Inr (JDict [(''viewCount'', JStr ''1200''), (''likeCount'', JStr ''30'')])"
    by (simp add: video_a_def)
  have l: "(1::nat) < length [video_b, video_a]"
    by simp
  from r(3) [rule_format, OF l g]
  have "Comments (records ! 1) = 0 \<and> Title (records ! 1) = JStr ''Alpha'' \<and>
      Views (records ! 1) = 1200 \<and> Likes (records ! 1) = 30"
    by (simp add: video_a_def snippet_of_def decimal_def)
  with r(1,2) e f show ?thesis
    by simp
qed

subsection \<open>Video Detail Fetcher: a missing block\<close>

text \<open>
  C7: when an item of the answer is a dictionary without a \<open>statistics\<close> entry or
  without a \<open>snippet\<close> entry, the loop body raises \<open>KeyError\<close> on that item, and
  \<open>get_video_details\<close> raises an exception: it returns no record at all, neither a
  defaulted nor a partial one.
\<close>

theorem missing_block_raises:
  assumes "py_join '','' video_ids = Inr ids"
    and "youtube (VideosList ''snippet,statistics'' ids) = Inr response"
    and "getitem response ''items'' = Inr (JList items)"
    and "JDict video \<in> set items"
    and "map_of video ''statistics'' = None \<or> map_of video ''snippet'' = None"
  shows "video_data_of int_str (JDict video) = Inl KeyError \<and>
         (\<exists>e. fst (get_video_details int_str youtube video_ids s) = Inl e)"
proof -
  have body: "video_data_of int_str (JDict video) = Inl KeyError"
    using assms(5) by (auto simp: video_data_of_def split: option.splits)
  have "get_video_details int_str youtube video_ids s =
      (get_video_details_loop int_str items [],
       s\<lparr>requests := requests s @ [VideosList ''snippet,statistics'' ids]\<rparr>)"
    using assms(1-3) by (rule get_video_details_run)
  moreover have "\<exists>e. get_video_details_loop int_str items [] = Inl e"
    using assms(4) body by (rule get_video_details_loop_raises)
  ultimately show ?thesis
    using body by simp
qed

theorem missing_block_raises_witness:
  "JDict [(''id'', JStr ''c''), (''snippet'', snippet_of ''Gamma'')] \<in> set [video_b, video_no_statistics] \<and>
   map_of [(''id'', JStr ''c''), (''snippet'', snippet_of ''Gamma'')] ''statistics'' = None \<and>
   video_data_of decimal video_no_statistics = Inl KeyError \<and>
   fst (get_video_details decimal (answer_with [video_b, video_no_statistics])
          [JStr ''b'', JStr ''c''] start) = Inl KeyError"
proof -
  have a: "py_join '','' [JStr ''b'', JStr ''c''] = Inr ''b,c''"
    by (simp add: py_join_def)
  have b: "answer_with [video_b, video_no_statistics] (VideosList ''snippet,statistics'' ''b,c'') =
     Inr (JDict [(''kind'', JStr ''youtube#listResponse''),
                 (''items'', JList [video_b, video_no_statistics])])"
    by (simp add: answer_with_def)
  have c: "getitem (JDict [(''kind'', JStr ''youtube#listResponse''),
                           (''items'', JList [video_b, video_no_statistics])]) ''items'' =
     Inr (JList [video_b, video_no_statistics])"
    by simp
  have d: "JDict [(''id'', JStr ''c''), (''snippet'', snippet_of ''Gamma'')]
      \<in> set [video_b, video_no_statistics]"
    by (simp add: video_no_statistics_def)
  have e: "map_of [(''id'', JStr ''c''), (''snippet'', snippet_of ''Gamma'')] ''statistics'' = None \<or>
      map_of [(''id'', JStr ''c''), (''snippet'', snippet_of ''Gamma'')] ''snippet'' = None"
    by simp
  have f: "fst (get_video_details decimal (answer_with [video_b, video_no_statistics])
          [JStr ''b'', JStr ''c''] start) = Inl KeyError"
    by (simp add: get_video_details_def io_bind_lift io_bind_execute io_lift_apply py_join_def
        answer_with_def video_data_of_def video_b_def video_no_statistics_def snippet_of_def
        decimal_def)
  from missing_block_raises [where video_ids = "[JStr ''b'', JStr ''c'']" and ids = "''b,c''"
      and youtube = "answer_with [video_b, video_no_statistics]"
      and items = "[video_b, video_no_statistics]" and int_str = decimal and s = start
      and video = "[(''id'', JStr ''c''), (''snippet'', snippet_of ''Gamma'')]"
      and response = "JDict [(''kind'', JStr ''youtube#listResponse''),
                             (''items'', JList [video_b, video_no_statistics])]", OF a b c d e]
  have "video_data_of decimal video_no_statistics = Inl KeyError"
    by (simp add: video_no_statistics_def)
  with d f show ?thesis
    by simp
qed

subsection \<open>Video Detail Fetcher: a missing thumbnail\<close>

lemma bindE_eq_Inr: "bindE m f = Inr y \<longleftrightarrow> (\<exists>x. m = Inr x \<and> f x = Inr y)"
  by (cases m) auto

text \<open>
  C10: when the thumbnails of an item of the answer are a dictionary without a \<open>high\<close>
  entry, or with a \<open>high\<close> entry that is a dictionary without a \<open>url\<close> entry, the
  subscript chain \<open>snippet['thumbnails']['high']['url']\<close> raises \<open>KeyError\<close>, the loop
  body raises on that item, and \<open>get_video_details\<close> raises an exception: there is no
  default for the thumbnail.
\<close>

theorem missing_thumbnail_raises:
  assumes "py_join '','' video_ids = Inr ids"
    and "youtube (VideosList ''snippet,statistics'' ids) = Inr response"
    and "getitem response ''items'' = Inr (JList items)"
    and "video \<in> set items"
    and "getitem video ''snippet'' = Inr snippet"
    and "getitem snippet ''thumbnails'' = Inr (JDict thumbnails)"
    and "map_of thumbnails ''high'' = None \<or>
         (\<exists>high. map_of thumbnails ''high'' = Some (JDict high) \<and> map_of high ''url'' = None)"
  shows "subscripts snippet [''thumbnails'', ''high'', ''url''] = Inl KeyError \<and>
         (\<exists>e. video_data_of int_str video = Inl e) \<and>
         (\<exists>e. fst (get_video_details int_str youtube video_ids s) = Inl e)"
proof -
  have chain: "subscripts snippet [''thumbnails'', ''high'', ''url''] = Inl KeyError"
    using assms(6,7) by auto
  have body: "\<exists>e. video_data_of int_str video = Inl e"
  proof (cases "video_data_of int_str video")
    case (Inl e)
    then show ?thesis by blast
  next
    case (Inr r)
    then have "False"
      using assms(5) chain
      by (auto simp: video_data_of_def bindE_eq_Inr)
    then show ?thesis ..
  qed
  then obtain e where e: "video_data_of int_str video = Inl e" ..
  have "get_video_details int_str youtube video_ids s =
      (get_video_details_loop int_str items [],
       s\<lparr>requests := requests s @ [VideosList ''snippet,statistics'' ids]\<rparr>)"
    using assms(1-3) by (rule get_video_details_run)
  moreover have "\<exists>e. get_video_details_loop int_str items [] = Inl e"
    using assms(4) e by (rule get_video_details_loop_raises)
  ultimately show ?thesis
    using chain body by simp
qed

theorem missing_thumbnail_raises_witness:
  "video_no_high \<in> set [video_no_high, video_a] \<and>
   map_of [(''default'', JDict [(''url'', JStr ''https://i.ytimg.com/d.jpg'')])] ''high'' = None \<and>
   video_data_of decimal video_no_high = Inl KeyError \<and>
   fst (get_video_details decimal (answer_with [video_no_high, video_a])
          [JStr ''d'', JStr ''a''] start) = Inl KeyError"
proof -
  have a: "py_join '','' [JStr ''d'', JStr ''a''] = Inr ''d,a''"
    by (simp add: py_join_def)
  have b: "answer_with [video_no_high, video_a] (VideosList ''snippet,statistics'' ''d,a'') =
     Inr (JDict [(''kind'', JStr ''youtube#listResponse''),
                 (''items'', JList [video_no_high, video_a])])"
    by (simp add: answer_with_def)
  have c: "getitem (JDict [(''kind'', JStr ''youtube#listResponse''),
                           (''items'', JList [video_no_high, video_a])]) ''items'' =
     Inr (JList [video_no_high, video_a])"
    by simp
  have d: "video_no_high \<in> set [video_no_high, video_a]"
    by simp
  have e: "getitem video_no_high ''snippet'' =
     Inr (JDict [(''title'', JStr ''Delta''),
                 (''thumbnails'', JDict [(''default'', JDict [(''url'', JStr ''https://i.ytimg.com/d.jpg'')])])])"
    by (simp add: video_no_high_def)
  have f: "getitem (JDict [(''title'', JStr ''Delta''),
                 (''thumbnails'', JDict [(''default'', JDict [(''url'', JStr ''https://i.ytimg.com/d.jpg'')])])])
             ''thumbnails'' =
     Inr (JDict [(''default'', JDict [(''url'', JStr ''https://i.ytimg.com/d.jpg'')])])"
    by simp
  have g: "map_of [(''default'', JDict [(''url'', JStr ''https://i.ytimg.com/d.jpg'')])] ''high'' = None \<or>
     (\<exists>high. map_of [(''default'', JDict [(''url'', JStr ''https://i.ytimg.com/d.jpg'')])] ''high''
               = Some (JDict high) \<and> map_of high ''url'' = None)"
    by simp
  have h: "video_data_of decimal video_no_high = Inl KeyError"
    by (simp add: video_data_of_def video_no_high_def decimal_def)
  have i: "fst (get_video_details decimal (answer_with [video_no_high, video_a])
          [JStr ''d'', JStr ''a''] start) = Inl KeyError"
    by (simp add: get_video_details_def io_bind_lift io_bind_execute io_lift_apply py_join_def
        answer_with_def video_data_of_def video_no_high_def decimal_def)
  from missing_thumbnail_raises [where video_ids = "[JStr ''d'', JStr ''a'']" and ids = "''d,a''"
      and youtube = "answer_with [video_no_high, video_a]"
      and items = "[video_no_high, video_a]" and int_str = decimal and s = start
      and video = video_no_high
      and response = "JDict [(''kind'', JStr ''youtube#listResponse''),
                             (''items'', JList [video_no_high, video_a])]", OF a b c d e f g]
  have "\<exists>e. fst (get_video_details decimal (answer_with [video_no_high, video_a])
          [JStr ''d'', JStr ''a''] start) = Inl e"
    by (elim conjE)
  with d h i show ?thesis
    by simp
qed

subsection \<open>Channel Lookup\<close>

text \<open>What the \<open>try\<close> block does once the service is built and the channel looked up
  without an exception, when the value returned is not truthy.\<close>

lemma pipeline_not_found:
  assumes "discovery_build P key = Inr youtube"
    and "fst (get_channel_stats youtube channel_id s) = Inr channel_info"
    and "\<not> truthy channel_info"
  shows "pipeline P key genai channel_id s =
           (Inr (), s\<lparr>requests := requests s @
                          [ChannelsList ''snippet,contentDetails,statistics'' channel_id],
                       widgets := widgets s @ [StError ''Channel not found! Check the ID.'']\<rparr>)"
proof -
  have "get_channel_stats youtube channel_id s =
      (Inr channel_info,
       s\<lparr>requests := requests s @
              [ChannelsList ''snippet,contentDetails,statistics'' channel_id]\<rparr>)"
    using assms(2) by (simp add: get_channel_stats_run)
  then show ?thesis
    using assms(1,3)
    by (simp add: pipeline_def io_bind_lift io_bind_Inr st_put_def)
qed

lemma pipeline_lookup_raises:
  assumes "discovery_build P key = Inr youtube"
    and "fst (get_channel_stats youtube channel_id s) = Inl e"
  shows "pipeline P key genai channel_id s =
           (Inl e, s\<lparr>requests := requests s @
                          [ChannelsList ''snippet,contentDetails,statistics'' channel_id]\<rparr>)"
proof -
  have "get_channel_stats youtube channel_id s =
      (Inl e,
       s\<lparr>requests := requests s @
              [ChannelsList ''snippet,contentDetails,statistics'' channel_id]\<rparr>)"
    using assms(2) by (simp add: get_channel_stats_run)
  then show ?thesis
    using assms(1)
    by (simp add: pipeline_def io_bind_lift io_bind_Inl)
qed

text \<open>
  C3: when the answer to the channels request holds an empty list of items,
  \<open>get_channel_stats\<close> returns \<open>None\<close>; the main area then shows "Channel not found!"
  and ends, having issued the channels request and no other: neither the playlist request,
  nor the videos request, nor the request to the text model. When the list of items is
  not empty, \<open>get_channel_stats\<close> returns its first element.
\<close>

theorem channel_lookup_zero_items:
  assumes "youtube (ChannelsList ''snippet,contentDetails,statistics'' channel_id) = Inr response"
    and "getitem response ''items'' = Inr (JList items)"
  shows "(items = [] \<longrightarrow>
            fst (get_channel_stats youtube channel_id s) = Inr JNull \<and>
            (discovery_build P key = Inr youtube \<longrightarrow>
               main_area P key genai channel_id s =
                 s\<lparr>requests := requests s @
                        [ChannelsList ''snippet,contentDetails,statistics'' channel_id],
                   widgets := widgets s @ [StError ''Channel not found! Check the ID.'']\<rparr>)) \<and>
         (\<forall>item rest. items = item # rest \<longrightarrow>
            fst (get_channel_stats youtube channel_id s) = Inr item)"
proof (intro conjI impI allI)
  assume "items = []"
  then show none: "fst (get_channel_stats youtube channel_id s) = Inr JNull"
    using assms by (simp add: get_channel_stats_run)
  assume "discovery_build P key = Inr youtube"
  then have "pipeline P key genai channel_id s =
      (Inr (), s\<lparr>requests := requests s @
                     [ChannelsList ''snippet,contentDetails,statistics'' channel_id],
                  widgets := widgets s @ [StError ''Channel not found! Check the ID.'']\<rparr>)"
    using none by (rule pipeline_not_found) simp
  then show "main_area P key genai channel_id s =
      s\<lparr>requests := requests s @
             [ChannelsList ''snippet,contentDetails,statistics'' channel_id],
        widgets := widgets s @ [StError ''Channel not found! Check the ID.'']\<rparr>"
    by (simp add: main_area_def)
next
  fix item rest assume "items = item # rest"
  then show "fst (get_channel_stats youtube channel_id s) = Inr item"
    using assms by (simp add: get_channel_stats_run index_of_def)
qed

theorem channel_lookup_zero_items_witness:
  "fst (get_channel_stats (answer_with []) ''UCx'' start) = Inr JNull \<and>
   discovery_build (demo (answer_with [])) (JStr ''key'') = Inr (answer_with []) \<and>
   main_area (demo (answer_with [])) (JStr ''key'') echo ''UCx'' start =
     start\<lparr>requests := requests start @
                [ChannelsList ''snippet,contentDetails,statistics'' ''UCx''],
           widgets := widgets start @ [StError ''Channel not found! Check the ID.'']\<rparr> \<and>
   fst (get_channel_stats (answer_with [upload ''a'', upload ''b'']) ''UCx'' start) =
     Inr (upload ''a'')"
proof -
  have a: "answer_with [] (ChannelsList ''snippet,contentDetails,statistics'' ''UCx'') =
      Inr (JDict [(''kind'', JStr ''youtube#listResponse''), (''items'', JList [])])"
    by (simp add: answer_with_def)
  have b: "getitem (JDict [(''kind'', JStr ''youtube#listResponse''), (''items'', JList [])])
      ''items'' = Inr (JList [])"
    by simp
  have c: "discovery_build (demo (answer_with [])) (JStr ''key'') = Inr (answer_with [])"
    by (simp add: demo_def)
  have a': "answer_with [upload ''a'', upload ''b'']
        (ChannelsList ''snippet,contentDetails,statistics'' ''UCx'') =
      Inr (JDict [(''kind'', JStr ''youtube#listResponse''),
                  (''items'', JList [upload ''a'', upload ''b''])])"
    by (simp add: answer_with_def)
  have b': "getitem (JDict [(''kind'', JStr ''youtube#listResponse''),
                  (''items'', JList [upload ''a'', upload ''b''])])
      ''items'' = Inr (JList [upload ''a'', upload ''b''])"
    by simp
  show ?thesis
    using c
      channel_lookup_zero_items [where youtube = "answer_with []" and channel_id = "''UCx''"
        and items = "[]" and s = start and P = "demo (answer_with [])" and key = "JStr ''key''"
        and genai = echo
        and response = "JDict [(''kind'', JStr ''youtube#listResponse''), (''items'', JList [])]",
        OF a b]
      channel_lookup_zero_items [where youtube = "answer_with [upload ''a'', upload ''b'']"
        and channel_id = "''UCx''" and items = "[upload ''a'', upload ''b'']" and s = start
        and response = "JDict [(''kind'', JStr ''youtube#listResponse''),
                  (''items'', JList [upload ''a'', upload ''b''])]",
        OF a' b']
    by simp
qed

text \<open>
  C9, as stated: \<open>get_channel_stats\<close> returns \<open>None\<close> only when the answer has an
  \<open>items\<close> entry that is empty. The function returns the first element of a non-empty
  entry as it is, so an answer whose list of items starts with \<open>None\<close> gives \<open>None\<close>
  as well, and the main area shows "Channel not found!" although the list is not empty.
\<close>

theorem channel_lookup_sentinel_counterexample:
  "answer_with [JNull] (ChannelsList ''snippet,contentDetails,statistics'' ''UCx'') =
     Inr (JDict [(''kind'', JStr ''youtube#listResponse''), (''items'', JList [JNull])]) \<and>
   [JNull] \<noteq> [] \<and>
   fst (get_channel_stats (answer_with [JNull]) ''UCx'' start) = Inr JNull \<and>
   main_area (demo (answer_with [JNull])) (JStr ''key'') echo ''UCx'' start =
     start\<lparr>requests := [ChannelsList ''snippet,contentDetails,statistics'' ''UCx''],
           widgets := [StError ''Channel not found! Check the ID.'']\<rparr>"
  by (simp add: get_channel_stats_run answer_with_def index_of_def main_area_def pipeline_def
      io_bind_lift io_bind_Inr st_put_def demo_def start_def)

text \<open>
  C9, amended: when the answer to the channels request is a dictionary without an
  \<open>items\<close> entry, \<open>get_channel_stats\<close> raises \<open>KeyError\<close>; the exception reaches the
  handler of the main area, which shows it as an error and not as "Channel not found!".
  \<open>get_channel_stats\<close> returns \<open>None\<close> only when the answer has an \<open>items\<close> entry
  that is not truthy (for a list: empty) or whose first element is itself \<open>None\<close>; for a
  list of items none of which is \<open>None\<close>, it returns \<open>None\<close> exactly when the list is
  empty.
\<close>

theorem channel_lookup_missing_items_key:
  assumes "youtube (ChannelsList ''snippet,contentDetails,statistics'' channel_id) =
             Inr (JDict response)"
  shows "(map_of response ''items'' = None \<longrightarrow>
            fst (get_channel_stats youtube channel_id s) = Inl KeyError \<and>
            (discovery_build P key = Inr youtube \<longrightarrow>
               main_area P key genai channel_id s =
                 s\<lparr>requests := requests s @
                        [ChannelsList ''snippet,contentDetails,statistics'' channel_id],
                   widgets := widgets s @ [StErrorExc KeyError]\<rparr>)) \<and>
         (fst (get_channel_stats youtube channel_id s) = Inr JNull \<longrightarrow>
            (\<exists>items. map_of response ''items'' = Some items \<and>
               (\<not> truthy items \<or> getitem_int items 0 = Inr JNull))) \<and>
         (\<forall>items. map_of response ''items'' = Some (JList items) \<longrightarrow> JNull \<notin> set items \<longrightarrow>
            (fst (get_channel_stats youtube channel_id s) = Inr JNull \<longleftrightarrow> items = []))"
proof (intro conjI impI allI)
  assume "map_of response ''items'' = None"
  then show err: "fst (get_channel_stats youtube channel_id s) = Inl KeyError"
    using assms by (simp add: get_channel_stats_run)
  assume "discovery_build P key = Inr youtube"
  then have "pipeline P key genai channel_id s =
      (Inl KeyError, s\<lparr>requests := requests s @
                     [ChannelsList ''snippet,contentDetails,statistics'' channel_id]\<rparr>)"
    using err by (rule pipeline_lookup_raises)
  then show "main_area P key genai channel_id s =
      s\<lparr>requests := requests s @
             [ChannelsList ''snippet,contentDetails,statistics'' channel_id],
        widgets := widgets s @ [StErrorExc KeyError]\<rparr>"
    by (simp add: main_area_def)
next
  assume "fst (get_channel_stats youtube channel_id s) = Inr JNull"
  then show "\<exists>items. map_of response ''items'' = Some items \<and>
               (\<not> truthy items \<or> getitem_int items 0 = Inr JNull)"
    using assms
    by (cases "map_of response ''items''") (auto simp: get_channel_stats_run split: if_splits)
next
  fix items
  assume items: "map_of response ''items'' = Some (JList items)" and "JNull \<notin> set items"
  then show "fst (get_channel_stats youtube channel_id s) = Inr JNull \<longleftrightarrow> items = []"
    using assms by (cases items) (auto simp: get_channel_stats_run index_of_def)
qed

theorem channel_lookup_missing_items_key_witness:
  "map_of [(''kind'', JStr ''youtube#listResponse'')] ''items'' = None \<and>
   fst (get_channel_stats answer_bare ''UCx'' start) = Inl KeyError \<and>
   discovery_build (demo answer_bare) (JStr ''key'') = Inr answer_bare \<and>
   main_area (demo answer_bare) (JStr ''key'') echo ''UCx'' start =
     start\<lparr>requests := requests start @
                [ChannelsList ''snippet,contentDetails,statistics'' ''UCx''],
           widgets := widgets start @ [StErrorExc KeyError]\<rparr> \<and>
   map_of [(''kind'', JStr ''youtube#listResponse''), (''items'', JList [])] ''items'' =
     Some (JList []) \<and>
   JNull \<notin> set [] \<and> \<not> truthy (JList []) \<and>
   fst (get_channel_stats (answer_with []) ''UCx'' start) = Inr JNull \<and>
   map_of [(''kind'', JStr ''youtube#listResponse''), (''items'', JList [upload ''a''])] ''items'' =
     Some (JList [upload ''a'']) \<and>
   JNull \<notin> set [upload ''a''] \<and>
   fst (get_channel_stats (answer_with [upload ''a'']) ''UCx'' start) \<noteq> Inr JNull"
proof -
  have a: "answer_bare (ChannelsList ''snippet,contentDetails,statistics'' ''UCx'') =
      Inr (JDict [(''kind'', JStr ''youtube#listResponse'')])"
    by (simp add: answer_bare_def)
  have c: "discovery_build (demo answer_bare) (JStr ''key'') = Inr answer_bare"
    by (simp add: demo_def)
  have a': "answer_with [] (ChannelsList ''snippet,contentDetails,statistics'' ''UCx'') =
      Inr (JDict [(''kind'', JStr ''youtube#listResponse''), (''items'', JList [])])"
    by (simp add: answer_with_def)
  have a'': "answer_with [upload ''a''] (ChannelsList ''snippet,contentDetails,statistics'' ''UCx'') =
      Inr (JDict [(''kind'', JStr ''youtube#listResponse''), (''items'', JList [upload ''a''])])"
    by (simp add: answer_with_def)
  have n: "JNull \<notin> set [upload ''a'']"
    by (simp add: upload_def)
  show ?thesis
    using c n
      channel_lookup_missing_items_key [where youtube = answer_bare and channel_id = "''UCx''"
        and s = start and P = "demo answer_bare" and key = "JStr ''key''" and genai = echo
        and response = "[(''kind'', JStr ''youtube#listResponse'')]", OF a]
      channel_lookup_missing_items_key [where youtube = "answer_with []"
        and channel_id = "''UCx''" and s = start
        and response = "[(''kind'', JStr ''youtube#listResponse''), (''items'', JList [])]",
        OF a']
      channel_lookup_missing_items_key [where youtube = "answer_with [upload ''a'']"
        and channel_id = "''UCx''" and s = start
        and response = "[(''kind'', JStr ''youtube#listResponse''),
                         (''items'', JList [upload ''a''])]",
        OF a'']
    by simp
qed

subsection \<open>Missing credentials\<close>

text \<open>
  C8: when the secret store lacks the YouTube key or the Gemini key, the run shows the
  message about the secrets and stops there: no request is issued and nothing else is
  shown, whatever the channel identifier, the button and the session flag.
\<close>

theorem missing_secret_halts:
  assumes "secrets ''YOUTUBE_API_KEY'' = None \<or> secrets ''GEMINI_API_KEY'' = None"
  shows "app P secrets channel_id_input button s =
           s\<lparr>widgets := widgets s @ [StError
             ''Secrets not found! If running locally, make sure you have a .streamlit/secrets.toml file.'']\<rparr> \<and>
         requests (app P secrets channel_id_input button s) = requests s"
  using assms by (auto simp: app_def split: option.splits)

theorem missing_secret_halts_witness:
  "[''YOUTUBE_API_KEY'' \<mapsto> JStr ''key''] ''GEMINI_API_KEY'' = None \<and>
   app (demo (answer_with [])) [''YOUTUBE_API_KEY'' \<mapsto> JStr ''key''] ''UCx'' True start =
     start\<lparr>widgets := widgets start @ [StError
       ''Secrets not found! If running locally, make sure you have a .streamlit/secrets.toml file.'']\<rparr> \<and>
   requests (app (demo (answer_with [])) [''YOUTUBE_API_KEY'' \<mapsto> JStr ''key''] ''UCx'' True start) =
     requests start"
proof -
  have a: "[''YOUTUBE_API_KEY'' \<mapsto> JStr ''key''] ''YOUTUBE_API_KEY'' = None \<or>
      [''YOUTUBE_API_KEY'' \<mapsto> JStr ''key''] ''GEMINI_API_KEY'' = None"
    by simp
  have b: "[''YOUTUBE_API_KEY'' \<mapsto> JStr ''key''] ''GEMINI_API_KEY'' = None"
    by simp
  show ?thesis
    by (rule conjI [OF b
          missing_secret_halts [OF a, of "demo (answer_with [])" "''UCx''" True start]])
qed

subsection \<open>Narrative Summarizer\<close>

text \<open>
  C4, as stated: for every record set the prompt embeds the first 5 records, or all of them
  when there are fewer. For the empty record set there is no prompt: the table made from
  an empty list has no columns, so selecting \<open>Title\<close>, \<open>Views\<close> and \<open>Likes\<close> raises
  \<open>KeyError\<close> before any prompt is built or sent.
\<close>

theorem analyze_with_gemini_empty_counterexample:
  "analyze_with_gemini echo plain (DataFrame []) start = (Inl KeyError, start)"
  by (simp add: analyze_with_gemini_def io_bind_lift DataFrame_def select_def)

text \<open>
  C4, amended: for every record set that is not empty, \<open>analyze_with_gemini\<close> sends one
  prompt to the model \<open>gemini-2.5-flash\<close> and returns its answer; the prompt is the fixed
  text around the rendering of one table, whose columns are \<open>Title\<close>, \<open>Views\<close> and
  \<open>Likes\<close> only and whose rows are those of the first 5 records (of all records when
  there are fewer), in the order of the record set.
\<close>

theorem analyze_with_gemini_first_five:
  assumes "data \<noteq> []"
  shows "analyze_with_gemini genai to_string (DataFrame data) s =
           (genai ''gemini-2.5-flash''
              (prompt_head @
               to_string \<lparr>columns = [''Title'', ''Views'', ''Likes''],
                          rows = map (\<lambda>d. [Title d, JInt (Views d), JInt (Likes d)])
                                   (take 5 data)\<rparr> @
               prompt_tail),
            s\<lparr>requests := requests s @
                   [GenerateContent ''gemini-2.5-flash''
                      (prompt_head @
                       to_string \<lparr>columns = [''Title'', ''Views'', ''Likes''],
                                  rows = map (\<lambda>d. [Title d, JInt (Views d), JInt (Likes d)])
                                           (take 5 data)\<rparr> @
                       prompt_tail)]\<rparr>)"
proof -
  have "select (DataFrame data) [''Title'', ''Views'', ''Likes''] =
      Inr \<lparr>columns = [''Title'', ''Views'', ''Likes''],
           rows = map (\<lambda>d. [Title d, JInt (Views d), JInt (Likes d)]) data\<rparr>"
    using assms by (simp add: select_def DataFrame_def cell_def)
  then show ?thesis
    by (simp add: analyze_with_gemini_def io_bind_lift generate_content_def head_def take_map
        Let_def)
qed

theorem analyze_with_gemini_first_five_witness:
  "replicate 6 \<lparr>Title = JStr ''T'', Views = 1, Likes = 2, Comments = 3, Thumbnail = JNull\<rparr> \<noteq> [] \<and>
   analyze_with_gemini echo plain
       (DataFrame (replicate 6
          \<lparr>Title = JStr ''T'', Views = 1, Likes = 2, Comments = 3, Thumbnail = JNull\<rparr>)) start =
     (Inr (prompt_head @ ''Title Views Likes: *****'' @ prompt_tail),
      start\<lparr>requests := [GenerateContent ''gemini-2.5-flash''
                            (prompt_head @ ''Title Views Likes: *****'' @ prompt_tail)]\<rparr>) \<and>
   take 5 (replicate 6 \<lparr>Title = JStr ''T'', Views = 1, Likes = 2, Comments = 3,
                         Thumbnail = JNull\<rparr>) =
     replicate 5 \<lparr>Title = JStr ''T'', Views = 1, Likes = 2, Comments = 3, Thumbnail = JNull\<rparr>"
proof -
  have a: "replicate 6 \<lparr>Title = JStr ''T'', Views = 1, Likes = 2, Comments = 3,
                         Thumbnail = JNull\<rparr> \<noteq> []"
    by simp
  show ?thesis
    using a analyze_with_gemini_first_five [OF a, of echo plain start]
    by (simp add: echo_def plain_def start_def eval_nat_numeral)
qed

end
